theory Spec2Isabelle
  imports Main "HOL-Library.AList"
begin

section \<open>Python values, errors and strings\<close>

text \<open>
  Every \<open>raise\<close> of \<open>run.py\<close> raises \<open>ValueError\<close> (the specification's
  \<open>ConfigurationError\<close>). A message built from string literals and \<open>str\<close> values is kept
  as its text. Two messages interpolate the \<open>repr\<close> of a set or of lists, whose text depends
  on hash order and quoting rules; they are kept as a constructor holding the interpolated
  values. \<open>AttributeError\<close> is what \<open>getattr\<close> raises for a name the namespace lacks.
  \<open>IsADirectoryError\<close> and \<open>OSError\<close> are exceptions the file system raises inside
  \<open>Path.exists\<close> or \<open>pd.read_csv\<close> (a directory where a file is expected, a name too
  long, a permission denied); they carry the path. They are not \<open>ValueError\<close>s.
\<close>

datatype message =
    Text string
  | MissingColumns string "string set"
  | TooManyTargets "string list" "string list"
  | InvalidGenoDataPath string

datatype error =
    ValueError message
  | AttributeError string
  | IsADirectoryError string
  | OSError string

text \<open>The values a namespace attribute (and so a configuration entry) holds. The float of
  \<open>--gwas_p_value_threshold\<close> is only carried along, so its type is a parameter.\<close>

datatype 'f pyval =
    PyNone
  | PyStr string
  | PyInt int
  | PyFloat 'f
  | PyBool bool
  | PyStrList "string list"

definition opt_str :: "string option \<Rightarrow> 'f pyval" where
  "opt_str x = (case x of None \<Rightarrow> PyNone | Some s \<Rightarrow> PyStr s)"

text \<open>Truth value of an attribute that is \<open>None\<close> or a \<open>str\<close>: \<open>None\<close> and the empty
  string are false.\<close>

definition truthy :: "string option \<Rightarrow> bool" where
  "truthy x = (case x of None \<Rightarrow> False | Some s \<Rightarrow> s \<noteq> [])"

text \<open>\<open>s.rstrip(chars)\<close>: drops every trailing character that is one of \<open>chars\<close>.\<close>

definition rstrip :: "string \<Rightarrow> string \<Rightarrow> string" where
  "rstrip chars s = rev (dropWhile (\<lambda>c. c \<in> set chars) (rev s))"

section \<open>Paths (\<open>pathlib.PurePosixPath\<close>)\<close>

text \<open>A path object is its root (\<open>''''\<close>, \<open>''/''\<close> or \<open>''//''\<close>) and its parts. Parsing a
  string drops empty and \<open>.\<close> components; exactly two leading slashes are kept as a root of
  their own, as POSIX asks.\<close>

record pure_path =
  root :: string
  parts :: "string list"

fun split_on :: "char \<Rightarrow> string \<Rightarrow> string list" where
  "split_on sep [] = [[]]"
| "split_on sep (c # cs) =
     (if c = sep then [] # split_on sep cs
      else (case split_on sep cs of
              [] \<Rightarrow> [[c]]
            | w # ws \<Rightarrow> (c # w) # ws))"

fun join_on :: "string \<Rightarrow> string list \<Rightarrow> string" where
  "join_on sep [] = []"
| "join_on sep [x] = x"
| "join_on sep (x # y # ys) = x @ sep @ join_on sep (y # ys)"

definition splitroot :: "string \<Rightarrow> string \<times> string" where
  "splitroot part =
     (if part \<noteq> [] \<and> hd part = CHR ''/'' then
        (let stripped_part = dropWhile (\<lambda>c. c = CHR ''/'') part
         in if length part - length stripped_part = 2 then (''//'', stripped_part)
            else (''/'', stripped_part))
      else ('''', part))"

definition Path :: "string \<Rightarrow> pure_path" where
  "Path s =
     (case splitroot s of
        (rt, rel) \<Rightarrow>
          \<lparr>root = rt, parts = filter (\<lambda>x. x \<noteq> [] \<and> x \<noteq> ''.'') (split_on CHR ''/'' rel)\<rparr>)"

text \<open>\<open>path / key\<close>: a key with a root of its own replaces the path, any other key's parts
  are appended.\<close>

definition truediv :: "pure_path \<Rightarrow> string \<Rightarrow> pure_path" where
  "truediv p key =
     (let k = Path key
      in if root k \<noteq> [] then k else \<lparr>root = root p, parts = parts p @ parts k\<rparr>)"

definition path_str :: "pure_path \<Rightarrow> string" where
  "path_str p =
     (let s = root p @ join_on ''/'' (parts p) in if s = [] then ''.'' else s)"

section \<open>The arguments record and the heap of namespaces\<close>

text \<open>The \<open>argparse.Namespace\<close> that \<open>get_argument_parser\<close> declares: one field per
  \<open>add_argument\<close>, an option without default being \<open>None\<close> when absent.\<close>

record 'f cl_args =
  genotype_data_path :: string
  label_file_path :: string
  global_output_folder :: "string option"
  data_output_folder :: "string option"
  feature_selection_output_folder :: "string option"
  modelling_output_folder :: "string option"
  analysis_output_folder :: "string option"
  output_name :: string
  pre_split_folder :: "string option"
  feature_selection :: "string option"
  n_dl_feature_selection_folds :: int
  gwas_p_value_threshold :: 'f
  folds :: string
  input_cat_columns :: "string list"
  input_con_columns :: "string list"
  output_cat_columns :: "string list"
  output_con_columns :: "string list"
  do_test :: bool

text \<open>Namespaces are mutable objects: \<open>copy\<close> makes a new object and an attribute assignment
  changes one object in place. The heap is the list of the namespace objects allocated so
  far, a reference is an index into it (Python has no dangling reference, so a reference
  handed to a function is below the heap's length).\<close>

type_synonym 'f heap = "'f cl_args list"
type_synonym ref = nat

definition copy_ns :: "'f heap \<Rightarrow> ref \<Rightarrow> 'f heap \<times> ref" where
  "copy_ns h r = (h @ [h ! r], length h)"

definition setattr :: "'f heap \<Rightarrow> ref \<Rightarrow> ('f cl_args \<Rightarrow> 'f cl_args) \<Rightarrow> 'f heap" where
  "setattr h r upd = h[r := upd (h ! r)]"

section \<open>Output-folder resolution\<close>

definition parse_output_folders :: "'f heap \<Rightarrow> ref \<Rightarrow> 'f heap \<times> (error + ref)" where
  "parse_output_folders h cl_args =
     (case copy_ns h cl_args of
        (h0, cl_args_copy) \<Rightarrow>
          if truthy (global_output_folder (h0 ! cl_args_copy)) then
            (let gof = rstrip ''/'' (the (global_output_folder (h0 ! cl_args_copy)));
                 h1 = setattr h0 cl_args_copy (data_output_folder_update (\<lambda>_. Some (gof @ ''/data'')));
                 h2 = setattr h1 cl_args_copy
                        (feature_selection_output_folder_update (\<lambda>_. Some (gof @ ''/feature_selection'')));
                 h3 = setattr h2 cl_args_copy
                        (modelling_output_folder_update (\<lambda>_. Some (gof @ ''/modelling'')));
                 h4 = setattr h3 cl_args_copy
                        (analysis_output_folder_update (\<lambda>_. Some (gof @ ''/analysis'')))
             in (h4, Inr cl_args_copy))
          else if \<not> truthy (data_output_folder (h0 ! cl_args_copy)) then
            (h0, Inl (ValueError (Text
               (''Missing data output folder. Either a global output folder or a '' @
                ''data output folder must be provided.''))))
          else if \<not> truthy (feature_selection_output_folder (h0 ! cl_args_copy)) then
            (h0, Inl (ValueError (Text
               (''Missing feature selection output folder. Either a global output folder or a '' @
                ''feature selection output folder must be provided.''))))
          else if \<not> truthy (modelling_output_folder (h0 ! cl_args_copy)) then
            (h0, Inl (ValueError (Text
               (''Missing modelling output folder. Either a global output folder or a '' @
                ''modelling output folder must be provided.''))))
          else if \<not> truthy (analysis_output_folder (h0 ! cl_args_copy)) then
            (h0, Inl (ValueError (Text
               (''Missing analysis output folder. Either a global output folder or a '' @
                ''analysis output folder must be provided.''))))
          else (h0, Inr cl_args_copy))"

section \<open>The world outside the program\<close>

text \<open>What the program asks of its surroundings: whether a path exists
  (\<open>Path(...).exists()\<close>, asked of the path's string), the column labels
  \<open>pd.read_csv(path, nrows=1).columns\<close> of a delimited file, whether the genotype root
  holds its companion files, and \<open>shutil.which\<close>. The answers are given, not computed.
  \<open>Path.exists\<close> and \<open>pd.read_csv\<close> can raise instead of answering: \<open>exists\<close> passes on
  every \<open>OSError\<close> but the few it reads as "no such path", and \<open>read_csv\<close> raises for
  a directory, an unreadable file or a file without a header (pandas' \<open>EmptyDataError\<close>,
  which is a \<open>ValueError\<close>). The program catches none of them.\<close>

record world =
  path_exists :: "string \<Rightarrow> error + bool"
  read_csv_columns :: "string \<Rightarrow> error + string list"
  geno_data_files_present :: "string \<Rightarrow> bool"
  shutil_which :: "string \<Rightarrow> string option"

section \<open>Validators\<close>

text \<open>Modelled from the spec: \<open>validate_geno_data_path\<close> is imported from
  \<open>eir_auto_gp.preprocess.gwas_pre_selection\<close>, which is not among the sources. The
  specification says it fails with a \<open>ConfigurationError\<close> if the configured root does not
  contain the expected companion files of a genotype dataset; which files those are is left
  to the world.\<close>

definition validate_geno_data_path :: "world \<Rightarrow> string \<Rightarrow> error + unit" where
  "validate_geno_data_path w geno_data_path =
     (if geno_data_files_present w geno_data_path then Inr ()
      else Inl (ValueError (InvalidGenoDataPath geno_data_path)))"

definition validate_label_file ::
  "world \<Rightarrow> string \<Rightarrow> string list \<Rightarrow> string list \<Rightarrow> string list \<Rightarrow> string list \<Rightarrow> error + unit"
where
  "validate_label_file w label_file_path' input_cat_columns' input_con_columns'
       output_cat_columns' output_con_columns' =
     (case path_exists w (path_str (Path label_file_path')) of
        Inl e \<Rightarrow> Inl e
      | Inr exists \<Rightarrow>
          if \<not> exists then
            Inl (ValueError (Text
              (''Label file path '' @ label_file_path' @ '' is invalid. '' @
               ''Expected to find '' @ label_file_path' @ ''.'')))
          else
            (case read_csv_columns w label_file_path' of
               Inl e \<Rightarrow> Inl e
             | Inr columns \<Rightarrow>
                 if ''ID'' \<notin> set columns then
                   Inl (ValueError (Text
                     (''Label file path '' @ label_file_path' @ '' is invalid. '' @
                      ''Expected to find 'ID' column.'')))
                 else
                   (let all_columns =
                          set (input_cat_columns' @ input_con_columns' @ output_cat_columns' @
                               output_con_columns');
                        missing_columns = all_columns - set columns
                    in if card missing_columns > 0 then
                         Inl (ValueError (MissingColumns label_file_path' missing_columns))
                       else Inr ())))"

definition validate_targets :: "string list \<Rightarrow> string list \<Rightarrow> error + unit" where
  "validate_targets output_con_columns' output_cat_columns' =
     (if length output_con_columns' = 0 \<and> length output_cat_columns' = 0 then
        Inl (ValueError (Text
          ''At least one output column must be specified as continuous or categorical.''))
      else if length output_con_columns' + length output_cat_columns' > 1 then
        Inl (ValueError (TooManyTargets output_con_columns' output_cat_columns'))
      else Inr ())"

definition validate_plink2_exists_in_path :: "world \<Rightarrow> error + unit" where
  "validate_plink2_exists_in_path w =
     (if shutil_which w ''plink2'' = None then
        Inl (ValueError (Text
          (''plink2 is not installed or not in the path. '' @
           ''Please install plink2 and try again.'')))
      else Inr ())"

section \<open>Pre-split folder detection\<close>

text \<open>Returns the heap and either the error \<open>exists\<close> raised or the reference of the
  namespace it returns with the lines it logs.\<close>

definition add_pre_split_folder_if_present ::
  "world \<Rightarrow> 'f heap \<Rightarrow> ref \<Rightarrow> 'f heap \<times> (error + ref \<times> string list)"
where
  "add_pre_split_folder_if_present w h cl_args =
     (case copy_ns h cl_args of
        (h0, cl_args_copy) \<Rightarrow>
          (let genotype_path = Path (genotype_data_path (h0 ! cl_args_copy))
           in case path_exists w (path_str (truediv genotype_path ''ids'')) of
                Inl e \<Rightarrow> (h0, Inl e)
              | Inr exists \<Rightarrow>
                  if exists then
                    (let h1 = setattr h0 cl_args_copy
                                (pre_split_folder_update
                                   (\<lambda>_. Some (path_str (truediv genotype_path ''ids''))))
                     in (h1, Inr (cl_args_copy,
                         [''Found pre-split folder '' @
                          path_str (truediv genotype_path ''ids'') @ ''. '' @
                          ''in root genotype folder. Using those for train/test split.''])))
                  else (h0, Inr (cl_args_copy, []))))"

section \<open>Configuration builders\<close>

text \<open>A dictionary is the list of its items in insertion order; assigning a key it has
  replaces the value in place, assigning a new key appends the item.\<close>

type_synonym 'f config = "(string \<times> 'f pyval) list"

text \<open>The attributes of a namespace the parser made (\<open>vars(namespace)\<close>), and \<open>getattr\<close>.\<close>

definition vars_ns :: "'f cl_args \<Rightarrow> 'f config" where
  "vars_ns ns =
     [(''genotype_data_path'', PyStr (genotype_data_path ns)),
      (''label_file_path'', PyStr (label_file_path ns)),
      (''global_output_folder'', opt_str (global_output_folder ns)),
      (''data_output_folder'', opt_str (data_output_folder ns)),
      (''feature_selection_output_folder'', opt_str (feature_selection_output_folder ns)),
      (''modelling_output_folder'', opt_str (modelling_output_folder ns)),
      (''analysis_output_folder'', opt_str (analysis_output_folder ns)),
      (''output_name'', PyStr (output_name ns)),
      (''pre_split_folder'', opt_str (pre_split_folder ns)),
      (''feature_selection'', opt_str (feature_selection ns)),
      (''n_dl_feature_selection_folds'', PyInt (n_dl_feature_selection_folds ns)),
      (''gwas_p_value_threshold'', PyFloat (gwas_p_value_threshold ns)),
      (''folds'', PyStr (folds ns)),
      (''input_cat_columns'', PyStrList (input_cat_columns ns)),
      (''input_con_columns'', PyStrList (input_con_columns ns)),
      (''output_cat_columns'', PyStrList (output_cat_columns ns)),
      (''output_con_columns'', PyStrList (output_con_columns ns)),
      (''do_test'', PyBool (do_test ns))]"

definition getattr :: "'f cl_args \<Rightarrow> string \<Rightarrow> error + 'f pyval" where
  "getattr ns key =
     (case map_of (vars_ns ns) key of
        None \<Rightarrow> Inl (AttributeError key)
      | Some v \<Rightarrow> Inr v)"

text \<open>The dictionary comprehension \<open>{key: getattr(namespace, key) for key in keys}\<close>,
  filling the dictionary key by key.\<close>

fun extract_into :: "'f cl_args \<Rightarrow> 'f config \<Rightarrow> string list \<Rightarrow> error + 'f config" where
  "extract_into ns d [] = Inr d"
| "extract_into ns d (key # keys) =
     (case getattr ns key of
        Inl e \<Rightarrow> Inl e
      | Inr v \<Rightarrow> extract_into ns (AList.update key v d) keys)"

definition extract_from_namespace :: "'f cl_args \<Rightarrow> string list \<Rightarrow> error + 'f config" where
  "extract_from_namespace ns keys = extract_into ns [] keys"

definition build_data_config :: "'f cl_args \<Rightarrow> error + 'f config" where
  "build_data_config cl_args =
     (let data_keys =
            [''genotype_data_path'', ''label_file_path'', ''data_output_folder'',
             ''output_name'', ''pre_split_folder'']
      in case extract_from_namespace cl_args data_keys of
           Inl e \<Rightarrow> Inl e
         | Inr base \<Rightarrow> Inr (AList.update ''output_format'' (PyStr ''deeplake'') base))"

definition build_feature_selection_config :: "'f cl_args \<Rightarrow> error + 'f config" where
  "build_feature_selection_config cl_args =
     (let feature_selection_keys =
            [''feature_selection_output_folder'', ''feature_selection'',
             ''n_dl_feature_selection_folds'', ''gwas_p_value_threshold'']
      in extract_from_namespace cl_args feature_selection_keys)"

definition build_modelling_config :: "'f cl_args \<Rightarrow> error + 'f config" where
  "build_modelling_config cl_args =
     (let modelling_keys =
            [''modelling_output_folder'', ''input_cat_columns'', ''input_con_columns'',
             ''output_cat_columns'', ''output_con_columns'', ''do_test'']
      in extract_from_namespace cl_args modelling_keys)"

definition build_analysis_config :: "'f cl_args \<Rightarrow> error + 'f config" where
  "build_analysis_config cl_args =
     (let analysis_keys = [''analysis_output_folder'']
      in extract_from_namespace cl_args analysis_keys)"

section \<open>The run\<close>

text \<open>The root task \<open>RunAnalysisWrapper(folds=..., data_config=..., ...)\<close> is kept as the
  parameters it is constructed with; what the scheduler does with it is outside the
  program.\<close>

datatype 'f root_task =
  RunAnalysisWrapper (task_folds: string) (task_data_config: "'f config")
    (task_feature_selection_config: "'f config") (task_modelling_config: "'f config")
    (task_analysis_config: "'f config")

text \<open>The calls of \<open>run\<close>, in the order of its body. A run is the list of the calls it
  entered and either the error that ended it or the task it handed to \<open>luigi.build\<close>.\<close>

datatype step =
    ValidateGenoDataPath
  | ValidateLabelFile
  | ValidateTargets
  | ValidatePlink2ExistsInPath
  | ParseOutputFolders
  | AddPreSplitFolderIfPresent
  | BuildDataConfig
  | BuildFeatureSelectionConfig
  | BuildModellingConfig
  | BuildAnalysisConfig
  | ConstructRootTask
  | LuigiBuild

type_synonym 'a traced = "step list \<times> (error + 'a)"

definition call :: "step \<Rightarrow> error + 'a \<Rightarrow> 'a traced" where
  "call s r = ([s], r)"

definition and_then :: "'a traced \<Rightarrow> ('a \<Rightarrow> 'b traced) \<Rightarrow> 'b traced" where
  "and_then m f =
     (case m of
        (t, Inl e) \<Rightarrow> (t, Inl e)
      | (t, Inr x) \<Rightarrow> (case f x of (t', y) \<Rightarrow> (t @ t', y)))"

definition run :: "world \<Rightarrow> 'f heap \<Rightarrow> ref \<Rightarrow> 'f root_task traced" where
  "run w h cl_args =
     and_then (call ValidateGenoDataPath
       (validate_geno_data_path w (genotype_data_path (h ! cl_args)))) (\<lambda>_.
     and_then (call ValidateLabelFile
       (validate_label_file w (label_file_path (h ! cl_args))
          (input_cat_columns (h ! cl_args)) (input_con_columns (h ! cl_args))
          (output_cat_columns (h ! cl_args)) (output_con_columns (h ! cl_args)))) (\<lambda>_.
     and_then (call ValidateTargets
       (validate_targets (output_con_columns (h ! cl_args))
          (output_cat_columns (h ! cl_args)))) (\<lambda>_.
     and_then (call ValidatePlink2ExistsInPath (validate_plink2_exists_in_path w)) (\<lambda>_.
     and_then (call ParseOutputFolders (snd (parse_output_folders h cl_args))) (\<lambda>cl_args1.
     (case add_pre_split_folder_if_present w (fst (parse_output_folders h cl_args)) cl_args1 of
        (h2, returned) \<Rightarrow>
     and_then (call AddPreSplitFolderIfPresent returned) (\<lambda>(cl_args2, logged).
     and_then (call BuildDataConfig (build_data_config (h2 ! cl_args2))) (\<lambda>data_config.
     and_then (call BuildFeatureSelectionConfig
       (build_feature_selection_config (h2 ! cl_args2))) (\<lambda>feature_selection_config.
     and_then (call BuildModellingConfig
       (build_modelling_config (h2 ! cl_args2))) (\<lambda>modelling_config.
     and_then (call BuildAnalysisConfig
       (build_analysis_config (h2 ! cl_args2))) (\<lambda>analysis_config.
     and_then (call ConstructRootTask
       (Inr (RunAnalysisWrapper (folds (h2 ! cl_args2)) data_config
               feature_selection_config modelling_config analysis_config))) (\<lambda>root_task.
     call LuigiBuild (Inr root_task)))))))))))))"

section \<open>Notions of the specification and sample inputs\<close>

text \<open>The specification's "first missing folder": the first of the four specific output
  folders, in the order data, feature selection, modelling, analysis, whose field is not
  provided. The name is the one the error message uses.\<close>

definition spec_first_missing_folder :: "'f cl_args \<Rightarrow> string option" where
  "spec_first_missing_folder a =
     map_option fst
       (find (\<lambda>(name, field). \<not> truthy field)
          [(''data'', data_output_folder a),
           (''feature selection'', feature_selection_output_folder a),
           (''modelling'', modelling_output_folder a),
           (''analysis'', analysis_output_folder a)])"

text \<open>The arguments of the specification's end-to-end scenario: a label file with the
  columns \<open>ID\<close>, \<open>phenotype\<close>, \<open>covariate1\<close>, one categorical target, one continuous input
  and the global output folder \<open>out/\<close>; everything else at the parser's defaults.\<close>

definition example_args :: "unit cl_args" where
  "example_args =
     \<lparr>genotype_data_path = ''geno'', label_file_path = ''labels.csv'',
      global_output_folder = Some ''out/'', data_output_folder = None,
      feature_selection_output_folder = None, modelling_output_folder = None,
      analysis_output_folder = None, output_name = ''genotype'',
      pre_split_folder = None, feature_selection = Some ''gwas->dl'',
      n_dl_feature_selection_folds = 3, gwas_p_value_threshold = (),
      folds = ''0-5'', input_cat_columns = [], input_con_columns = [''covariate1''],
      output_cat_columns = [''phenotype''], output_con_columns = [], do_test = False\<rparr>"

definition example_world :: world where
  "example_world =
     \<lparr>path_exists = (\<lambda>p. Inr (p \<in> {''labels.csv'', ''geno/ids''})),
      read_csv_columns = (\<lambda>p. Inr [''ID'', ''phenotype'', ''covariate1'']),
      geno_data_files_present = (\<lambda>p. p = ''geno''),
      shutil_which = (\<lambda>cmd. if cmd = ''plink2'' then Some ''/usr/bin/plink2'' else None)\<rparr>"

text \<open>The same world with a directory at \<open>labels.csv\<close>: the path exists and
  \<open>pd.read_csv\<close> raises \<open>IsADirectoryError\<close>.\<close>

definition directory_world :: world where
  "directory_world =
     example_world\<lparr>read_csv_columns := (\<lambda>p. Inl (IsADirectoryError p))\<rparr>"

section \<open>Strings and paths\<close>

lemma rstrip_no_trailing: "s \<noteq> [] \<Longrightarrow> last s \<notin> set chars \<Longrightarrow> rstrip chars s = s"
  by (cases s rule: rev_cases) (simp_all add: rstrip_def)

lemma rstrip_append_sep: "c \<in> set chars \<Longrightarrow> rstrip chars (s @ [c]) = rstrip chars s"
  by (simp add: rstrip_def)

lemma rstrip_examples:
  "rstrip ''/'' ''out'' = ''out''" "rstrip ''/'' ''out/'' = ''out''"
  "rstrip ''/'' ''out//'' = ''out''" "rstrip ''/'' ''/'' = []"
  by (simp_all add: rstrip_def)

lemma join_on_snoc_nonempty: "x \<noteq> [] \<Longrightarrow> join_on sep (xs @ [x]) \<noteq> []"
  by (induction sep xs rule: join_on.induct) auto

lemma Path_ids: "Path ''ids'' = \<lparr>root = [], parts = [''ids'']\<rparr>"
  by (simp add: Path_def splitroot_def)

lemma ids_path_str:
  "path_str (truediv (Path g) ''ids'') =
     root (Path g) @ join_on ''/'' (parts (Path g) @ [''ids''])"
  by (simp add: truediv_def path_str_def Let_def Path_ids join_on_snoc_nonempty)

lemma path_str_examples:
  "path_str (truediv (Path ''geno'') ''ids'') = ''geno/ids''"
  "path_str (truediv (Path ''geno/'') ''ids'') = ''geno/ids''"
  "path_str (truediv (Path ''/data//geno/./'') ''ids'') = ''/data/geno/ids''"
  "path_str (truediv (Path []) ''ids'') = ''ids''"
  "path_str (Path []) = ''.''"
  by (simp_all add: Path_def splitroot_def path_str_def truediv_def)

section \<open>Output-folder resolution\<close>

lemma parse_output_folders_truthy:
  assumes "truthy (global_output_folder (h ! r))"
  shows "parse_output_folders h r =
     (h @ [(h ! r)\<lparr>data_output_folder :=
                      Some (rstrip ''/'' (the (global_output_folder (h ! r))) @ ''/data''),
                    feature_selection_output_folder :=
                      Some (rstrip ''/'' (the (global_output_folder (h ! r))) @ ''/feature_selection''),
                    modelling_output_folder :=
                      Some (rstrip ''/'' (the (global_output_folder (h ! r))) @ ''/modelling''),
                    analysis_output_folder :=
                      Some (rstrip ''/'' (the (global_output_folder (h ! r))) @ ''/analysis'')\<rparr>],
      Inr (length h))"
  using assms by (simp add: parse_output_folders_def copy_ns_def setattr_def Let_def)

lemma parse_output_folders_falsy:
  assumes "\<not> truthy (global_output_folder (h ! r))"
  shows "parse_output_folders h r =
     (h @ [h ! r],
      if \<not> truthy (data_output_folder (h ! r)) then
        Inl (ValueError (Text
          ''Missing data output folder. Either a global output folder or a data output folder must be provided.''))
      else if \<not> truthy (feature_selection_output_folder (h ! r)) then
        Inl (ValueError (Text
          ''Missing feature selection output folder. Either a global output folder or a feature selection output folder must be provided.''))
      else if \<not> truthy (modelling_output_folder (h ! r)) then
        Inl (ValueError (Text
          ''Missing modelling output folder. Either a global output folder or a modelling output folder must be provided.''))
      else if \<not> truthy (analysis_output_folder (h ! r)) then
        Inl (ValueError (Text
          ''Missing analysis output folder. Either a global output folder or a analysis output folder must be provided.''))
      else Inr (length h))"
  using assms by (simp add: parse_output_folders_def copy_ns_def)

text \<open>C1, as the claim states it, fails where the global output folder is set to the empty
  string: with an empty \<open>--global_output_folder\<close> and no specific folder, the resolution
  raises instead of returning derived folders.\<close>

theorem parse_output_folders_empty_global_counterexample:
  "global_output_folder (example_args\<lparr>global_output_folder := Some []\<rparr>) = Some [] \<and>
   data_output_folder (example_args\<lparr>global_output_folder := Some []\<rparr>) = None \<and>
   feature_selection_output_folder (example_args\<lparr>global_output_folder := Some []\<rparr>) = None \<and>
   modelling_output_folder (example_args\<lparr>global_output_folder := Some []\<rparr>) = None \<and>
   analysis_output_folder (example_args\<lparr>global_output_folder := Some []\<rparr>) = None \<and>
   parse_output_folders [example_args\<lparr>global_output_folder := Some []\<rparr>] 0 =
     ([example_args\<lparr>global_output_folder := Some []\<rparr>,
       example_args\<lparr>global_output_folder := Some []\<rparr>],
      Inl (ValueError (Text
        ''Missing data output folder. Either a global output folder or a data output folder must be provided.'')))"
  by (simp add: example_args_def parse_output_folders_def copy_ns_def truthy_def)

text \<open>C1 (amended): for every arguments record whose global output folder is a non-empty
  string \<open>G\<close>, \<open>parse_output_folders\<close> returns a new record that is the input with
  \<open>data_output_folder\<close>, \<open>feature_selection_output_folder\<close>, \<open>modelling_output_folder\<close>
  and \<open>analysis_output_folder\<close> set to \<open>S/data\<close>, \<open>S/feature_selection\<close>, \<open>S/modelling\<close>
  and \<open>S/analysis\<close>, where \<open>S\<close> is \<open>G\<close> without its trailing \<open>/\<close> characters: \<open>S\<close> is \<open>G\<close>
  itself when \<open>G\<close> does not end in \<open>/\<close>, and \<open>G\<close> followed by \<open>/\<close> gives the same \<open>S\<close>.
  Whatever the specific folder fields held before is replaced.\<close>

theorem parse_output_folders_global:
  assumes "global_output_folder (h ! cl_args) = Some G" and "G \<noteq> []"
  shows "parse_output_folders h cl_args =
           (h @ [(h ! cl_args)\<lparr>data_output_folder := Some (rstrip ''/'' G @ ''/data''),
                   feature_selection_output_folder :=
                     Some (rstrip ''/'' G @ ''/feature_selection''),
                   modelling_output_folder := Some (rstrip ''/'' G @ ''/modelling''),
                   analysis_output_folder := Some (rstrip ''/'' G @ ''/analysis'')\<rparr>],
            Inr (length h))
         \<and> (last G \<noteq> CHR ''/'' \<longrightarrow> rstrip ''/'' G = G)
         \<and> rstrip ''/'' (G @ ''/'') = rstrip ''/'' G"
proof -
  have "truthy (global_output_folder (h ! cl_args))"
    using assms by (simp add: truthy_def)
  from parse_output_folders_truthy[OF this] assms show ?thesis
    by (simp add: rstrip_no_trailing rstrip_append_sep)
qed

theorem parse_output_folders_global_witness:
  "global_output_folder example_args = Some ''out/'' \<and>
   parse_output_folders [example_args] 0 =
     ([example_args,
       example_args\<lparr>data_output_folder := Some ''out/data'',
         feature_selection_output_folder := Some ''out/feature_selection'',
         modelling_output_folder := Some ''out/modelling'',
         analysis_output_folder := Some ''out/analysis''\<rparr>], Inr 1)"
  using parse_output_folders_global[of "[example_args]" 0 "''out/''"]
  by (simp add: example_args_def rstrip_def)

text \<open>C2: for every arguments record whose global output folder is unset and in which at
  least one of the four specific output folders is missing, \<open>parse_output_folders\<close> raises
  a \<open>ValueError\<close> (the specification's \<open>ConfigurationError\<close>) whose message names the first
  missing folder in the order data, feature selection, modelling, analysis. Unset and
  missing are what the code tests: \<open>None\<close>, or the empty string.\<close>

theorem parse_output_folders_missing:
  assumes "\<not> truthy (global_output_folder (h ! cl_args))"
    and "\<not> truthy (data_output_folder (h ! cl_args)) \<or>
         \<not> truthy (feature_selection_output_folder (h ! cl_args)) \<or>
         \<not> truthy (modelling_output_folder (h ! cl_args)) \<or>
         \<not> truthy (analysis_output_folder (h ! cl_args))"
  shows "\<exists>name. spec_first_missing_folder (h ! cl_args) = Some name \<and>
           snd (parse_output_folders h cl_args) =
             Inl (ValueError (Text
               (''Missing '' @ name @ '' output folder. Either a global output folder or a '' @
                name @ '' output folder must be provided.'')))"
  using assms(2)
  by (auto simp add: parse_output_folders_falsy[OF assms(1)] spec_first_missing_folder_def)

theorem parse_output_folders_missing_witness:
  "global_output_folder
     (example_args\<lparr>global_output_folder := None, data_output_folder := Some ''d''\<rparr>) = None \<and>
   spec_first_missing_folder
     (example_args\<lparr>global_output_folder := None, data_output_folder := Some ''d''\<rparr>) =
     Some ''feature selection'' \<and>
   snd (parse_output_folders
          [example_args\<lparr>global_output_folder := None, data_output_folder := Some ''d''\<rparr>] 0) =
     Inl (ValueError (Text
       ''Missing feature selection output folder. Either a global output folder or a feature selection output folder must be provided.''))"
  using parse_output_folders_missing
          [of "[example_args\<lparr>global_output_folder := None, data_output_folder := Some ''d''\<rparr>]" 0]
  by (simp add: example_args_def truthy_def spec_first_missing_folder_def)

lemma truthy_simps: "truthy None = False" "truthy (Some s) = (s \<noteq> [])"
  by (simp_all add: truthy_def)

lemma parse_output_folders_outcome:
  "snd (parse_output_folders h r) =
     (if truthy (global_output_folder (h ! r)) then Inr (length h)
      else if \<not> truthy (data_output_folder (h ! r)) then
        Inl (ValueError (Text
          ''Missing data output folder. Either a global output folder or a data output folder must be provided.''))
      else if \<not> truthy (feature_selection_output_folder (h ! r)) then
        Inl (ValueError (Text
          ''Missing feature selection output folder. Either a global output folder or a feature selection output folder must be provided.''))
      else if \<not> truthy (modelling_output_folder (h ! r)) then
        Inl (ValueError (Text
          ''Missing modelling output folder. Either a global output folder or a modelling output folder must be provided.''))
      else if \<not> truthy (analysis_output_folder (h ! r)) then
        Inl (ValueError (Text
          ''Missing analysis output folder. Either a global output folder or a analysis output folder must be provided.''))
      else Inr (length h))"
  by (cases "truthy (global_output_folder (h ! r))")
     (simp_all add: parse_output_folders_truthy parse_output_folders_falsy)

lemma first_missing_reported:
  assumes g: "\<not> truthy (global_output_folder (h ! r))"
    and f: "\<not> truthy (data_output_folder (h ! r)) \<or>
            \<not> truthy (feature_selection_output_folder (h ! r)) \<or>
            \<not> truthy (modelling_output_folder (h ! r)) \<or>
            \<not> truthy (analysis_output_folder (h ! r))"
  shows "\<exists>name. spec_first_missing_folder (h ! r) = Some name \<and>
           snd (parse_output_folders h r) =
             Inl (ValueError (Text
               (''Missing '' @ name @ '' output folder. Either a global output folder or a '' @
                name @ '' output folder must be provided.'')))"
  using f by (auto simp add: parse_output_folders_falsy[OF g] spec_first_missing_folder_def)

text \<open>C10, as the claim states it, fails: an empty specific folder is not always the one
  reported. With no global folder, no data folder and an empty feature selection folder the
  error names the data folder; with a global folder set, an empty data folder raises
  nothing and is replaced by the derived folder.\<close>

theorem parse_output_folders_empty_field_counterexample:
  "data_output_folder
     (example_args\<lparr>global_output_folder := None,
        feature_selection_output_folder := Some []\<rparr>) = None \<and>
   feature_selection_output_folder
     (example_args\<lparr>global_output_folder := None,
        feature_selection_output_folder := Some []\<rparr>) = Some [] \<and>
   snd (parse_output_folders
          [example_args\<lparr>global_output_folder := None,
             feature_selection_output_folder := Some []\<rparr>] 0) =
     Inl (ValueError (Text
       ''Missing data output folder. Either a global output folder or a data output folder must be provided.'')) \<and>
   snd (parse_output_folders
          [example_args\<lparr>global_output_folder := None,
             feature_selection_output_folder := Some []\<rparr>] 0) \<noteq>
     Inl (ValueError (Text
       ''Missing feature selection output folder. Either a global output folder or a feature selection output folder must be provided.'')) \<and>
   global_output_folder (example_args\<lparr>data_output_folder := Some []\<rparr>) = Some ''out/'' \<and>
   data_output_folder (example_args\<lparr>data_output_folder := Some []\<rparr>) = Some [] \<and>
   snd (parse_output_folders [example_args\<lparr>data_output_folder := Some []\<rparr>] 0) = Inr 1"
  by (simp add: example_args_def parse_output_folders_outcome truthy_simps)

text \<open>C10 (amended): \<open>parse_output_folders\<close> treats an empty string the same as an absent
  value, each folder being tested by its truth value: replacing the global output folder,
  or any one of the four specific output folders, that is the empty string by an absent
  value does not change the outcome (the error raised, or the reference returned). With
  the global output folder empty the function derives nothing and returns only if all four
  specific folders are provided. With the global output folder not provided and some
  specific folder empty, a \<open>ValueError\<close> (the specification's \<open>ConfigurationError\<close>) is
  raised that names the first folder, in the order data, feature selection, modelling,
  analysis, that is absent or empty: the empty folder itself exactly when every folder
  checked before it is provided.\<close>

theorem parse_output_folders_empty_string:
  assumes "cl_args < length h"
  shows "snd (parse_output_folders
                (h[cl_args := (h ! cl_args)\<lparr>global_output_folder := Some []\<rparr>]) cl_args) =
         snd (parse_output_folders
                (h[cl_args := (h ! cl_args)\<lparr>global_output_folder := None\<rparr>]) cl_args)
       \<and> snd (parse_output_folders
                (h[cl_args := (h ! cl_args)\<lparr>data_output_folder := Some []\<rparr>]) cl_args) =
         snd (parse_output_folders
                (h[cl_args := (h ! cl_args)\<lparr>data_output_folder := None\<rparr>]) cl_args)
       \<and> snd (parse_output_folders
                (h[cl_args := (h ! cl_args)\<lparr>feature_selection_output_folder := Some []\<rparr>])
                cl_args) =
         snd (parse_output_folders
                (h[cl_args := (h ! cl_args)\<lparr>feature_selection_output_folder := None\<rparr>])
                cl_args)
       \<and> snd (parse_output_folders
                (h[cl_args := (h ! cl_args)\<lparr>modelling_output_folder := Some []\<rparr>]) cl_args) =
         snd (parse_output_folders
                (h[cl_args := (h ! cl_args)\<lparr>modelling_output_folder := None\<rparr>]) cl_args)
       \<and> snd (parse_output_folders
                (h[cl_args := (h ! cl_args)\<lparr>analysis_output_folder := Some []\<rparr>]) cl_args) =
         snd (parse_output_folders
                (h[cl_args := (h ! cl_args)\<lparr>analysis_output_folder := None\<rparr>]) cl_args)
       \<and> (global_output_folder (h ! cl_args) = Some [] \<longrightarrow>
            fst (parse_output_folders h cl_args) = h @ [h ! cl_args] \<and>
            ((\<exists>r. snd (parse_output_folders h cl_args) = Inr r) =
               (truthy (data_output_folder (h ! cl_args)) \<and>
                truthy (feature_selection_output_folder (h ! cl_args)) \<and>
                truthy (modelling_output_folder (h ! cl_args)) \<and>
                truthy (analysis_output_folder (h ! cl_args)))))
       \<and> (\<not> truthy (global_output_folder (h ! cl_args)) \<and>
          (data_output_folder (h ! cl_args) = Some [] \<or>
           feature_selection_output_folder (h ! cl_args) = Some [] \<or>
           modelling_output_folder (h ! cl_args) = Some [] \<or>
           analysis_output_folder (h ! cl_args) = Some []) \<longrightarrow>
            (\<exists>name. spec_first_missing_folder (h ! cl_args) = Some name \<and>
               snd (parse_output_folders h cl_args) =
                 Inl (ValueError (Text
                   (''Missing '' @ name @
                    '' output folder. Either a global output folder or a '' @
                    name @ '' output folder must be provided.'')))))
       \<and> (\<not> truthy (global_output_folder (h ! cl_args)) \<and>
          data_output_folder (h ! cl_args) = Some [] \<longrightarrow>
            snd (parse_output_folders h cl_args) = Inl (ValueError (Text
              ''Missing data output folder. Either a global output folder or a data output folder must be provided.'')))
       \<and> (\<not> truthy (global_output_folder (h ! cl_args)) \<and>
          truthy (data_output_folder (h ! cl_args)) \<and>
          feature_selection_output_folder (h ! cl_args) = Some [] \<longrightarrow>
            snd (parse_output_folders h cl_args) = Inl (ValueError (Text
              ''Missing feature selection output folder. Either a global output folder or a feature selection output folder must be provided.'')))
       \<and> (\<not> truthy (global_output_folder (h ! cl_args)) \<and>
          truthy (data_output_folder (h ! cl_args)) \<and>
          truthy (feature_selection_output_folder (h ! cl_args)) \<and>
          modelling_output_folder (h ! cl_args) = Some [] \<longrightarrow>
            snd (parse_output_folders h cl_args) = Inl (ValueError (Text
              ''Missing modelling output folder. Either a global output folder or a modelling output folder must be provided.'')))
       \<and> (\<not> truthy (global_output_folder (h ! cl_args)) \<and>
          truthy (data_output_folder (h ! cl_args)) \<and>
          truthy (feature_selection_output_folder (h ! cl_args)) \<and>
          truthy (modelling_output_folder (h ! cl_args)) \<and>
          analysis_output_folder (h ! cl_args) = Some [] \<longrightarrow>
            snd (parse_output_folders h cl_args) = Inl (ValueError (Text
              ''Missing analysis output folder. Either a global output folder or a analysis output folder must be provided.'')))"
proof -
  have c1: "snd (parse_output_folders
                (h[cl_args := (h ! cl_args)\<lparr>global_output_folder := Some []\<rparr>]) cl_args) =
         snd (parse_output_folders
                (h[cl_args := (h ! cl_args)\<lparr>global_output_folder := None\<rparr>]) cl_args)"
    using assms by (simp add: parse_output_folders_outcome truthy_simps)
  have c2: "snd (parse_output_folders
                (h[cl_args := (h ! cl_args)\<lparr>data_output_folder := Some []\<rparr>]) cl_args) =
         snd (parse_output_folders
                (h[cl_args := (h ! cl_args)\<lparr>data_output_folder := None\<rparr>]) cl_args)"
    using assms by (simp add: parse_output_folders_outcome truthy_simps)
  have c3: "snd (parse_output_folders
                (h[cl_args := (h ! cl_args)\<lparr>feature_selection_output_folder := Some []\<rparr>])
                cl_args) =
         snd (parse_output_folders
                (h[cl_args := (h ! cl_args)\<lparr>feature_selection_output_folder := None\<rparr>])
                cl_args)"
    using assms by (simp add: parse_output_folders_outcome truthy_simps)
  have c4: "snd (parse_output_folders
                (h[cl_args := (h ! cl_args)\<lparr>modelling_output_folder := Some []\<rparr>]) cl_args) =
         snd (parse_output_folders
                (h[cl_args := (h ! cl_args)\<lparr>modelling_output_folder := None\<rparr>]) cl_args)"
    using assms by (simp add: parse_output_folders_outcome truthy_simps)
  have c5: "snd (parse_output_folders
                (h[cl_args := (h ! cl_args)\<lparr>analysis_output_folder := Some []\<rparr>]) cl_args) =
         snd (parse_output_folders
                (h[cl_args := (h ! cl_args)\<lparr>analysis_output_folder := None\<rparr>]) cl_args)"
    using assms by (simp add: parse_output_folders_outcome truthy_simps)
  have c6: "global_output_folder (h ! cl_args) = Some [] \<longrightarrow>
            fst (parse_output_folders h cl_args) = h @ [h ! cl_args] \<and>
            ((\<exists>r. snd (parse_output_folders h cl_args) = Inr r) =
               (truthy (data_output_folder (h ! cl_args)) \<and>
                truthy (feature_selection_output_folder (h ! cl_args)) \<and>
                truthy (modelling_output_folder (h ! cl_args)) \<and>
                truthy (analysis_output_folder (h ! cl_args))))"
  proof
    assume "global_output_folder (h ! cl_args) = Some []"
    then have "\<not> truthy (global_output_folder (h ! cl_args))"
      by (simp add: truthy_simps)
    then show "fst (parse_output_folders h cl_args) = h @ [h ! cl_args] \<and>
            ((\<exists>r. snd (parse_output_folders h cl_args) = Inr r) =
               (truthy (data_output_folder (h ! cl_args)) \<and>
                truthy (feature_selection_output_folder (h ! cl_args)) \<and>
                truthy (modelling_output_folder (h ! cl_args)) \<and>
                truthy (analysis_output_folder (h ! cl_args))))"
      by (simp add: parse_output_folders_falsy)
  qed
  have c7: "\<not> truthy (global_output_folder (h ! cl_args)) \<and>
          (data_output_folder (h ! cl_args) = Some [] \<or>
           feature_selection_output_folder (h ! cl_args) = Some [] \<or>
           modelling_output_folder (h ! cl_args) = Some [] \<or>
           analysis_output_folder (h ! cl_args) = Some []) \<longrightarrow>
            (\<exists>name. spec_first_missing_folder (h ! cl_args) = Some name \<and>
               snd (parse_output_folders h cl_args) =
                 Inl (ValueError (Text
                   (''Missing '' @ name @
                    '' output folder. Either a global output folder or a '' @
                    name @ '' output folder must be provided.''))))"
  proof
    assume a: "\<not> truthy (global_output_folder (h ! cl_args)) \<and>
          (data_output_folder (h ! cl_args) = Some [] \<or>
           feature_selection_output_folder (h ! cl_args) = Some [] \<or>
           modelling_output_folder (h ! cl_args) = Some [] \<or>
           analysis_output_folder (h ! cl_args) = Some [])"
    then have g: "\<not> truthy (global_output_folder (h ! cl_args))"
      by (rule conjunct1)
    from a have "data_output_folder (h ! cl_args) = Some [] \<or>
           feature_selection_output_folder (h ! cl_args) = Some [] \<or>
           modelling_output_folder (h ! cl_args) = Some [] \<or>
           analysis_output_folder (h ! cl_args) = Some []"
      by (rule conjunct2)
    then have f: "\<not> truthy (data_output_folder (h ! cl_args)) \<or>
            \<not> truthy (feature_selection_output_folder (h ! cl_args)) \<or>
            \<not> truthy (modelling_output_folder (h ! cl_args)) \<or>
            \<not> truthy (analysis_output_folder (h ! cl_args))"
      by (elim disjE) (simp_all add: truthy_simps)
    show "\<exists>name. spec_first_missing_folder (h ! cl_args) = Some name \<and>
               snd (parse_output_folders h cl_args) =
                 Inl (ValueError (Text
                   (''Missing '' @ name @
                    '' output folder. Either a global output folder or a '' @
                    name @ '' output folder must be provided.'')))"
      by (rule first_missing_reported[OF g f])
  qed
  have c8: "\<not> truthy (global_output_folder (h ! cl_args)) \<and>
          data_output_folder (h ! cl_args) = Some [] \<longrightarrow>
            snd (parse_output_folders h cl_args) = Inl (ValueError (Text
              ''Missing data output folder. Either a global output folder or a data output folder must be provided.''))"
    by (simp add: parse_output_folders_outcome truthy_simps)
  have c9: "\<not> truthy (global_output_folder (h ! cl_args)) \<and>
          truthy (data_output_folder (h ! cl_args)) \<and>
          feature_selection_output_folder (h ! cl_args) = Some [] \<longrightarrow>
            snd (parse_output_folders h cl_args) = Inl (ValueError (Text
              ''Missing feature selection output folder. Either a global output folder or a feature selection output folder must be provided.''))"
    by (simp add: parse_output_folders_outcome truthy_simps)
  have c10: "\<not> truthy (global_output_folder (h ! cl_args)) \<and>
          truthy (data_output_folder (h ! cl_args)) \<and>
          truthy (feature_selection_output_folder (h ! cl_args)) \<and>
          modelling_output_folder (h ! cl_args) = Some [] \<longrightarrow>
            snd (parse_output_folders h cl_args) = Inl (ValueError (Text
              ''Missing modelling output folder. Either a global output folder or a modelling output folder must be provided.''))"
    by (simp add: parse_output_folders_outcome truthy_simps)
  have c11: "\<not> truthy (global_output_folder (h ! cl_args)) \<and>
          truthy (data_output_folder (h ! cl_args)) \<and>
          truthy (feature_selection_output_folder (h ! cl_args)) \<and>
          truthy (modelling_output_folder (h ! cl_args)) \<and>
          analysis_output_folder (h ! cl_args) = Some [] \<longrightarrow>
            snd (parse_output_folders h cl_args) = Inl (ValueError (Text
              ''Missing analysis output folder. Either a global output folder or a analysis output folder must be provided.''))"
    by (simp add: parse_output_folders_outcome truthy_simps)
  show ?thesis
    by (intro conjI) (rule c1 c2 c3 c4 c5 c6 c7 c8 c9 c10 c11)+
qed

theorem parse_output_folders_empty_string_witness:
  "snd (parse_output_folders [example_args\<lparr>global_output_folder := Some []\<rparr>] 0) =
     snd (parse_output_folders [example_args\<lparr>global_output_folder := None\<rparr>] 0)
   \<and> snd (parse_output_folders
            [example_args\<lparr>global_output_folder := None, data_output_folder := Some ''d'',
               feature_selection_output_folder := Some []\<rparr>] 0) =
     snd (parse_output_folders
            [example_args\<lparr>global_output_folder := None, data_output_folder := Some ''d'',
               feature_selection_output_folder := None\<rparr>] 0)
   \<and> snd (parse_output_folders
            [example_args\<lparr>global_output_folder := None, data_output_folder := Some ''d'',
               feature_selection_output_folder := Some []\<rparr>] 0) =
       Inl (ValueError (Text
         ''Missing feature selection output folder. Either a global output folder or a feature selection output folder must be provided.''))"
  using parse_output_folders_empty_string[of 0 "[example_args]", THEN conjunct1]
    parse_output_folders_empty_string
      [of 0 "[example_args\<lparr>global_output_folder := None, data_output_folder := Some ''d''\<rparr>]",
       THEN conjunct2, THEN conjunct2, THEN conjunct1]
  by (simp add: parse_output_folders_outcome truthy_simps example_args_def)

section \<open>Pre-split folder detection\<close>

lemma add_pre_split_folder_present:
  assumes "path_exists w (path_str (truediv (Path (genotype_data_path (h ! r))) ''ids'')) =
             Inr True"
  shows "add_pre_split_folder_if_present w h r =
           (h @ [(h ! r)\<lparr>pre_split_folder :=
                    Some (path_str (truediv (Path (genotype_data_path (h ! r))) ''ids''))\<rparr>],
            Inr (length h,
              [''Found pre-split folder '' @
               path_str (truediv (Path (genotype_data_path (h ! r))) ''ids'') @
               ''. in root genotype folder. Using those for train/test split.'']))"
  using assms by (simp add: add_pre_split_folder_if_present_def copy_ns_def setattr_def Let_def)

lemma add_pre_split_folder_absent:
  assumes "path_exists w (path_str (truediv (Path (genotype_data_path (h ! r))) ''ids'')) =
             Inr False"
  shows "add_pre_split_folder_if_present w h r = (h @ [h ! r], Inr (length h, []))"
  using assms by (simp add: add_pre_split_folder_if_present_def copy_ns_def Let_def)

lemma add_pre_split_folder_raises:
  assumes "path_exists w (path_str (truediv (Path (genotype_data_path (h ! r))) ''ids'')) =
             Inl e"
  shows "add_pre_split_folder_if_present w h r = (h @ [h ! r], Inl e)"
  using assms by (simp add: add_pre_split_folder_if_present_def copy_ns_def Let_def)

text \<open>C6: for every arguments record, if \<open>ids\<close> exists directly under the genotype data
  root, \<open>_add_pre_split_folder_if_present\<close> returns a record that has \<open>pre_split_folder\<close>
  equal to that path, whatever \<open>pre_split_folder\<close> held before (a folder the user supplied
  included); the other fields are the input's, and one line is logged.\<close>

theorem add_pre_split_folder_overrides:
  assumes "path_exists w (path_str (truediv (Path (genotype_data_path (h ! cl_args))) ''ids'')) =
             Inr True"
  shows "\<exists>h' r' logged.
           add_pre_split_folder_if_present w h cl_args = (h', Inr (r', logged))
         \<and> pre_split_folder (h' ! r') =
             Some (path_str (truediv (Path (genotype_data_path (h ! cl_args))) ''ids''))
         \<and> h' ! r' = (h ! cl_args)\<lparr>pre_split_folder :=
                        Some (path_str (truediv (Path (genotype_data_path (h ! cl_args))) ''ids''))\<rparr>
         \<and> length logged = 1"
  using add_pre_split_folder_present[OF assms] by simp

theorem add_pre_split_folder_overrides_witness:
  "path_exists example_world ''geno/ids'' = Inr True \<and>
   pre_split_folder (example_args\<lparr>pre_split_folder := Some ''my_split''\<rparr>) = Some ''my_split'' \<and>
   add_pre_split_folder_if_present example_world
       [example_args\<lparr>pre_split_folder := Some ''my_split''\<rparr>] 0 =
     ([example_args\<lparr>pre_split_folder := Some ''my_split''\<rparr>,
       example_args\<lparr>pre_split_folder := Some ''geno/ids''\<rparr>],
      Inr (1,
        [''Found pre-split folder geno/ids. in root genotype folder. Using those for train/test split.'']))"
  using add_pre_split_folder_overrides
          [of example_world "[example_args\<lparr>pre_split_folder := Some ''my_split''\<rparr>]" 0]
  by (simp add: example_world_def example_args_def Path_def splitroot_def path_str_def
        truediv_def add_pre_split_folder_if_present_def copy_ns_def setattr_def)

section \<open>Copy on write\<close>

text \<open>C9: \<open>parse_output_folders\<close> and \<open>_add_pre_split_folder_if_present\<close> each return a new
  arguments record and leave their input unchanged: every object the heap held before the
  call, the input among them, is the same after it (also when the call raises), and the
  reference returned is that of an object allocated by the call.\<close>

theorem copy_on_write:
  "take (length h) (fst (parse_output_folders h cl_args)) = h
   \<and> (cl_args < length h \<longrightarrow> fst (parse_output_folders h cl_args) ! cl_args = h ! cl_args)
   \<and> (snd (parse_output_folders h cl_args) = Inr r' \<longrightarrow>
        r' = length h \<and> r' < length (fst (parse_output_folders h cl_args)))
   \<and> take (length h) (fst (add_pre_split_folder_if_present w h cl_args)) = h
   \<and> (cl_args < length h \<longrightarrow>
        fst (add_pre_split_folder_if_present w h cl_args) ! cl_args = h ! cl_args)
   \<and> (snd (add_pre_split_folder_if_present w h cl_args) = Inr (r'', logged) \<longrightarrow>
        r'' = length h \<and> r'' < length (fst (add_pre_split_folder_if_present w h cl_args)))
   \<and> length h < length (fst (add_pre_split_folder_if_present w h cl_args))"
proof -
  have 1: "take (length h) (fst (parse_output_folders h cl_args)) = h
     \<and> (cl_args < length h \<longrightarrow> fst (parse_output_folders h cl_args) ! cl_args = h ! cl_args)
     \<and> (snd (parse_output_folders h cl_args) = Inr r' \<longrightarrow>
          r' = length h \<and> r' < length (fst (parse_output_folders h cl_args)))"
    by (cases "truthy (global_output_folder (h ! cl_args))")
       (auto simp add: parse_output_folders_truthy parse_output_folders_falsy nth_append
          split: if_splits)
  have 2: "take (length h) (fst (add_pre_split_folder_if_present w h cl_args)) = h
     \<and> (cl_args < length h \<longrightarrow>
          fst (add_pre_split_folder_if_present w h cl_args) ! cl_args = h ! cl_args)
     \<and> (snd (add_pre_split_folder_if_present w h cl_args) = Inr (r'', logged) \<longrightarrow>
          r'' = length h \<and> r'' < length (fst (add_pre_split_folder_if_present w h cl_args)))
     \<and> length h < length (fst (add_pre_split_folder_if_present w h cl_args))"
  proof (cases "path_exists w (path_str (truediv (Path (genotype_data_path (h ! cl_args))) ''ids''))")
    case (Inl e)
    then show ?thesis
      by (simp add: add_pre_split_folder_raises nth_append)
  next
    case (Inr b)
    then show ?thesis
      by (cases b)
         (auto simp add: add_pre_split_folder_present add_pre_split_folder_absent nth_append)
  qed
  from 1 2 show ?thesis by simp
qed

theorem copy_on_write_witness:
  "fst (parse_output_folders [example_args] 0) ! 0 = example_args
   \<and> snd (parse_output_folders [example_args] 0) = Inr 1
   \<and> fst (parse_output_folders [example_args] 0) ! 1 \<noteq> example_args
   \<and> fst (add_pre_split_folder_if_present example_world [example_args] 0) ! 0 = example_args
   \<and> (\<exists>logged. snd (add_pre_split_folder_if_present example_world [example_args] 0) =
         Inr (1, logged))
   \<and> fst (add_pre_split_folder_if_present example_world [example_args] 0) ! 1 \<noteq> example_args"
  using copy_on_write[of "[example_args]" 0 1 example_world 1]
  by (simp add: example_world_def example_args_def Path_def splitroot_def path_str_def
        truediv_def add_pre_split_folder_if_present_def copy_ns_def setattr_def
        parse_output_folders_def truthy_def rstrip_def)

section \<open>Validators\<close>

text \<open>C3: for every pair of lists of continuous and categorical output columns,
  \<open>validate_targets\<close> raises a \<open>ValueError\<close> (the specification's \<open>ConfigurationError\<close>) if
  and only if the total number of output columns is zero or greater than one, and returns
  normally exactly when the total is one.\<close>

theorem validate_targets_fails_iff:
  "((\<exists>m. validate_targets con cat = Inl (ValueError m)) =
      (length con + length cat = 0 \<or> length con + length cat > 1))
   \<and> ((validate_targets con cat = Inr ()) = (length con + length cat = 1))"
  by (cases con; cases cat) (auto simp add: validate_targets_def)

text \<open>C4, as the claim states it, fails for a label file path that exists and that
  \<open>pd.read_csv\<close> cannot read: at a directory the validator neither raises a \<open>ValueError\<close>
  nor returns, it exits with the \<open>IsADirectoryError\<close> that \<open>pd.read_csv\<close> raised, although no
  column is requested.\<close>

theorem validate_label_file_directory_counterexample:
  "path_exists directory_world (path_str (Path ''labels.csv'')) = Inr True \<and>
   validate_label_file directory_world ''labels.csv'' [] [] [] [] =
     Inl (IsADirectoryError ''labels.csv'') \<and>
   validate_label_file directory_world ''labels.csv'' [] [] [] [] \<noteq> Inr () \<and>
   \<not> (\<exists>m. validate_label_file directory_world ''labels.csv'' [] [] [] [] =
          Inl (ValueError m))"
  by (simp add: validate_label_file_def directory_world_def example_world_def Path_def
        splitroot_def path_str_def)

text \<open>C4 (amended): for every label file path on which \<open>Path.exists\<close> answers and from
  which, if it exists, \<open>pd.read_csv\<close> reads a header, and every four lists of requested
  column names, \<open>validate_label_file\<close> raises a \<open>ValueError\<close> (the specification's
  \<open>ConfigurationError\<close>) if and only if the path does not exist, or the header lacks the
  \<open>ID\<close> column, or some requested input or output column is not a column of the header;
  otherwise it returns normally. An exception that \<open>Path.exists\<close> or \<open>pd.read_csv\<close> raises
  is the validator's outcome.\<close>

theorem validate_label_file_fails_iff:
  "(path_exists w (path_str (Path p)) = Inr exists \<and>
    (exists \<longrightarrow> read_csv_columns w p = Inr columns) \<longrightarrow>
      ((\<exists>m. validate_label_file w p in_cat in_con out_cat out_con = Inl (ValueError m)) =
         (\<not> exists
          \<or> ''ID'' \<notin> set columns
          \<or> \<not> set in_cat \<union> set in_con \<union> set out_cat \<union> set out_con \<subseteq> set columns))
      \<and> ((validate_label_file w p in_cat in_con out_cat out_con = Inr ()) =
         (exists
          \<and> ''ID'' \<in> set columns
          \<and> set in_cat \<union> set in_con \<union> set out_cat \<union> set out_con \<subseteq> set columns)))
   \<and> (path_exists w (path_str (Path p)) = Inl e \<longrightarrow>
        validate_label_file w p in_cat in_con out_cat out_con = Inl e)
   \<and> (path_exists w (path_str (Path p)) = Inr True \<and> read_csv_columns w p = Inl e \<longrightarrow>
        validate_label_file w p in_cat in_con out_cat out_con = Inl e)"
  by (auto simp add: validate_label_file_def Let_def card_gt_0_iff)

theorem validate_label_file_fails_iff_witness:
  "validate_label_file example_world ''labels.csv'' [] [''covariate1''] [''phenotype''] [] = Inr ()
   \<and> (\<exists>m. validate_label_file example_world ''labels.csv'' [] [''covariate1'']
            [''phenotype''] [''phenotype2''] = Inl (ValueError m))
   \<and> (\<exists>m. validate_label_file example_world ''nowhere.csv'' [] [] [] [] = Inl (ValueError m))"
  using validate_label_file_fails_iff
          [of example_world "''labels.csv''" True "[''ID'', ''phenotype'', ''covariate1'']"
              "[]" "[''covariate1'']" "[''phenotype'']" "[]", THEN conjunct1]
    validate_label_file_fails_iff
          [of example_world "''labels.csv''" True "[''ID'', ''phenotype'', ''covariate1'']"
              "[]" "[''covariate1'']" "[''phenotype'']" "[''phenotype2'']", THEN conjunct1]
    validate_label_file_fails_iff
          [of example_world "''nowhere.csv''" False "[]" "[]" "[]" "[]" "[]", THEN conjunct1]
  by (simp add: example_world_def Path_def splitroot_def path_str_def)

lemma validate_geno_data_path_error:
  "validate_geno_data_path w p = Inl e \<Longrightarrow> \<exists>m. e = ValueError m"
  by (auto simp add: validate_geno_data_path_def split: if_splits)

lemma validate_label_file_error:
  "validate_label_file w p a b c d = Inl e \<Longrightarrow>
   (\<exists>m. e = ValueError m) \<or> path_exists w (path_str (Path p)) = Inl e \<or>
   read_csv_columns w p = Inl e"
  by (auto simp add: validate_label_file_def Let_def split: if_splits sum.splits)

lemma validate_targets_error:
  "validate_targets con cat = Inl e \<Longrightarrow> \<exists>m. e = ValueError m"
  by (auto simp add: validate_targets_def split: if_splits)

lemma validate_targets_many:
  "2 \<le> length con + length cat \<Longrightarrow>
   validate_targets con cat = Inl (ValueError (TooManyTargets con cat))"
  by (cases con; cases cat) (auto simp add: validate_targets_def)

lemma validate_plink2_error:
  "validate_plink2_exists_in_path w = Inl e \<Longrightarrow> \<exists>m. e = ValueError m"
  by (auto simp add: validate_plink2_exists_in_path_def split: if_splits)

section \<open>Configuration builders\<close>

text \<open>C8: for every arguments record, \<open>build_data_config\<close> returns a mapping that maps
  \<open>output_format\<close> to the constant string \<open>deeplake\<close>, every other entry being the
  arguments record's own value of \<open>genotype_data_path\<close>, \<open>label_file_path\<close>,
  \<open>data_output_folder\<close>, \<open>output_name\<close> and \<open>pre_split_folder\<close>.\<close>

theorem build_data_config_entries:
  "build_data_config a =
     Inr [(''genotype_data_path'', PyStr (genotype_data_path a)),
          (''label_file_path'', PyStr (label_file_path a)),
          (''data_output_folder'', opt_str (data_output_folder a)),
          (''output_name'', PyStr (output_name a)),
          (''pre_split_folder'', opt_str (pre_split_folder a)),
          (''output_format'', PyStr ''deeplake'')]"
  by (simp add: build_data_config_def extract_from_namespace_def getattr_def vars_ns_def)

lemma build_feature_selection_config_entries:
  "build_feature_selection_config a =
     Inr [(''feature_selection_output_folder'', opt_str (feature_selection_output_folder a)),
          (''feature_selection'', opt_str (feature_selection a)),
          (''n_dl_feature_selection_folds'', PyInt (n_dl_feature_selection_folds a)),
          (''gwas_p_value_threshold'', PyFloat (gwas_p_value_threshold a))]"
  by (simp add: build_feature_selection_config_def extract_from_namespace_def getattr_def
        vars_ns_def)

lemma build_modelling_config_entries:
  "build_modelling_config a =
     Inr [(''modelling_output_folder'', opt_str (modelling_output_folder a)),
          (''input_cat_columns'', PyStrList (input_cat_columns a)),
          (''input_con_columns'', PyStrList (input_con_columns a)),
          (''output_cat_columns'', PyStrList (output_cat_columns a)),
          (''output_con_columns'', PyStrList (output_con_columns a)),
          (''do_test'', PyBool (do_test a))]"
  by (simp add: build_modelling_config_def extract_from_namespace_def getattr_def vars_ns_def)

lemma build_analysis_config_entries:
  "build_analysis_config a =
     Inr [(''analysis_output_folder'', opt_str (analysis_output_folder a))]"
  by (simp add: build_analysis_config_def extract_from_namespace_def getattr_def vars_ns_def)

text \<open>C7: for every arguments record, the four builders return mappings, each with exactly
  its declared keys (the data configuration with \<open>output_format\<close> added); the four key sets
  are pairwise disjoint, and their union without \<open>output_format\<close> is a subset of the
  fields of the arguments record.\<close>

theorem config_key_sets:
  "\<exists>dc fc mc ac.
     build_data_config a = Inr dc \<and> build_feature_selection_config a = Inr fc \<and>
     build_modelling_config a = Inr mc \<and> build_analysis_config a = Inr ac \<and>
     map fst dc = [''genotype_data_path'', ''label_file_path'', ''data_output_folder'',
                   ''output_name'', ''pre_split_folder'', ''output_format''] \<and>
     map fst fc = [''feature_selection_output_folder'', ''feature_selection'',
                   ''n_dl_feature_selection_folds'', ''gwas_p_value_threshold''] \<and>
     map fst mc = [''modelling_output_folder'', ''input_cat_columns'', ''input_con_columns'',
                   ''output_cat_columns'', ''output_con_columns'', ''do_test''] \<and>
     map fst ac = [''analysis_output_folder''] \<and>
     fst ` set dc \<inter> fst ` set fc = {} \<and> fst ` set dc \<inter> fst ` set mc = {} \<and>
     fst ` set dc \<inter> fst ` set ac = {} \<and> fst ` set fc \<inter> fst ` set mc = {} \<and>
     fst ` set fc \<inter> fst ` set ac = {} \<and> fst ` set mc \<inter> fst ` set ac = {} \<and>
     (fst ` set dc \<union> fst ` set fc \<union> fst ` set mc \<union> fst ` set ac) - {''output_format''}
       \<subseteq> fst ` set (vars_ns a)"
  unfolding build_feature_selection_config_entries build_modelling_config_entries
    build_analysis_config_entries
  by (simp add: build_data_config_def extract_from_namespace_def getattr_def vars_ns_def
        insert_Diff_if)

section \<open>The run fails fast\<close>

lemma run_geno_fails:
  "validate_geno_data_path w (genotype_data_path (h ! r)) = Inl e \<Longrightarrow>
   run w h r = ([ValidateGenoDataPath], Inl e)"
  by (simp add: run_def and_then_def call_def)

lemma run_label_fails:
  "validate_geno_data_path w (genotype_data_path (h ! r)) = Inr () \<Longrightarrow>
   validate_label_file w (label_file_path (h ! r)) (input_cat_columns (h ! r))
     (input_con_columns (h ! r)) (output_cat_columns (h ! r)) (output_con_columns (h ! r)) =
     Inl e \<Longrightarrow>
   run w h r = ([ValidateGenoDataPath, ValidateLabelFile], Inl e)"
  by (simp add: run_def and_then_def call_def)

lemma run_targets_fails:
  "validate_geno_data_path w (genotype_data_path (h ! r)) = Inr () \<Longrightarrow>
   validate_label_file w (label_file_path (h ! r)) (input_cat_columns (h ! r))
     (input_con_columns (h ! r)) (output_cat_columns (h ! r)) (output_con_columns (h ! r)) =
     Inr () \<Longrightarrow>
   validate_targets (output_con_columns (h ! r)) (output_cat_columns (h ! r)) = Inl e \<Longrightarrow>
   run w h r = ([ValidateGenoDataPath, ValidateLabelFile, ValidateTargets], Inl e)"
  by (simp add: run_def and_then_def call_def)

lemma run_plink2_fails:
  "validate_geno_data_path w (genotype_data_path (h ! r)) = Inr () \<Longrightarrow>
   validate_label_file w (label_file_path (h ! r)) (input_cat_columns (h ! r))
     (input_con_columns (h ! r)) (output_cat_columns (h ! r)) (output_con_columns (h ! r)) =
     Inr () \<Longrightarrow>
   validate_targets (output_con_columns (h ! r)) (output_cat_columns (h ! r)) = Inr () \<Longrightarrow>
   validate_plink2_exists_in_path w = Inl e \<Longrightarrow>
   run w h r = ([ValidateGenoDataPath, ValidateLabelFile, ValidateTargets,
                 ValidatePlink2ExistsInPath], Inl e)"
  by (simp add: run_def and_then_def call_def)

text \<open>The specification's end-to-end scenario reaches the submission of the root task, whose
  data configuration holds \<open>output_format\<close> as \<open>deeplake\<close>.\<close>

lemma run_example:
  "run example_world [example_args] 0 =
     ([ValidateGenoDataPath, ValidateLabelFile, ValidateTargets, ValidatePlink2ExistsInPath,
       ParseOutputFolders, AddPreSplitFolderIfPresent, BuildDataConfig,
       BuildFeatureSelectionConfig, BuildModellingConfig, BuildAnalysisConfig,
       ConstructRootTask, LuigiBuild],
      Inr (RunAnalysisWrapper ''0-5''
             [(''genotype_data_path'', PyStr ''geno''),
              (''label_file_path'', PyStr ''labels.csv''),
              (''data_output_folder'', PyStr ''out/data''),
              (''output_name'', PyStr ''genotype''),
              (''pre_split_folder'', PyStr ''geno/ids''),
              (''output_format'', PyStr ''deeplake'')]
             [(''feature_selection_output_folder'', PyStr ''out/feature_selection''),
              (''feature_selection'', PyStr ''gwas->dl''),
              (''n_dl_feature_selection_folds'', PyInt 3),
              (''gwas_p_value_threshold'', PyFloat ())]
             [(''modelling_output_folder'', PyStr ''out/modelling''),
              (''input_cat_columns'', PyStrList []),
              (''input_con_columns'', PyStrList [''covariate1'']),
              (''output_cat_columns'', PyStrList [''phenotype'']),
              (''output_con_columns'', PyStrList []),
              (''do_test'', PyBool False)]
             [(''analysis_output_folder'', PyStr ''out/analysis'')]))"
proof -
  have v: "validate_geno_data_path example_world (genotype_data_path example_args) = Inr ()"
    "validate_label_file example_world (label_file_path example_args)
       (input_cat_columns example_args) (input_con_columns example_args)
       (output_cat_columns example_args) (output_con_columns example_args) = Inr ()"
    "validate_targets (output_con_columns example_args) (output_cat_columns example_args) =
       Inr ()"
    "validate_plink2_exists_in_path example_world = Inr ()"
    by (simp_all add: validate_geno_data_path_def validate_label_file_def validate_targets_def
          validate_plink2_exists_in_path_def example_world_def example_args_def Path_def
          splitroot_def path_str_def)
  have p: "parse_output_folders [example_args] 0 =
     ([example_args,
       example_args\<lparr>data_output_folder := Some ''out/data'',
         feature_selection_output_folder := Some ''out/feature_selection'',
         modelling_output_folder := Some ''out/modelling'',
         analysis_output_folder := Some ''out/analysis''\<rparr>], Inr 1)"
    by (simp add: parse_output_folders_truthy truthy_def example_args_def rstrip_def)
  have g: "path_str (truediv (Path ''geno'') ''ids'') = ''geno/ids''"
    by (simp add: Path_def splitroot_def path_str_def truediv_def)
  have a: "add_pre_split_folder_if_present example_world
       [example_args,
        example_args\<lparr>data_output_folder := Some ''out/data'',
          feature_selection_output_folder := Some ''out/feature_selection'',
          modelling_output_folder := Some ''out/modelling'',
          analysis_output_folder := Some ''out/analysis''\<rparr>] (Suc 0) =
     ([example_args,
       example_args\<lparr>data_output_folder := Some ''out/data'',
         feature_selection_output_folder := Some ''out/feature_selection'',
         modelling_output_folder := Some ''out/modelling'',
         analysis_output_folder := Some ''out/analysis''\<rparr>,
       example_args\<lparr>data_output_folder := Some ''out/data'',
         feature_selection_output_folder := Some ''out/feature_selection'',
         modelling_output_folder := Some ''out/modelling'',
         analysis_output_folder := Some ''out/analysis'',
         pre_split_folder := Some ''geno/ids''\<rparr>],
      Inr (2,
        [''Found pre-split folder geno/ids. in root genotype folder. Using those for train/test split.'']))"
    by (simp add: add_pre_split_folder_if_present_def copy_ns_def setattr_def g
          example_args_def example_world_def)
  show ?thesis
    unfolding run_def
    by (simp add: v p a and_then_def call_def build_feature_selection_config_entries
          build_modelling_config_entries build_analysis_config_entries build_data_config_def
          extract_from_namespace_def getattr_def vars_ns_def)
       (simp add: example_args_def opt_str_def)
qed

lemma validate_label_file_error_answered:
  "path_exists w (path_str (Path p)) = Inr exists \<Longrightarrow>
   (exists \<Longrightarrow> read_csv_columns w p = Inr columns) \<Longrightarrow>
   validate_label_file w p a b c d = Inl e \<Longrightarrow> \<exists>m. e = ValueError m"
  by (cases exists) (auto simp add: validate_label_file_def Let_def split: if_splits)

text \<open>C5, as the claim states it, fails where the label file path is a directory: with two
  output target columns \<open>run\<close> raises before any folder resolution, but what it raises is
  the \<open>IsADirectoryError\<close> of \<open>pd.read_csv\<close>, not a \<open>ValueError\<close> (the specification's
  \<open>ConfigurationError\<close>).\<close>

theorem run_directory_counterexample:
  "length (output_con_columns (example_args\<lparr>output_con_columns := [''phenotype2'']\<rparr>)) +
   length (output_cat_columns (example_args\<lparr>output_con_columns := [''phenotype2'']\<rparr>)) = 2 \<and>
   run directory_world [example_args\<lparr>output_con_columns := [''phenotype2'']\<rparr>] 0 =
     ([ValidateGenoDataPath, ValidateLabelFile], Inl (IsADirectoryError ''labels.csv'')) \<and>
   \<not> (\<exists>m. snd (run directory_world
                   [example_args\<lparr>output_con_columns := [''phenotype2'']\<rparr>] 0) =
          Inl (ValueError m))"
proof -
  have g: "validate_geno_data_path directory_world
             (genotype_data_path (example_args\<lparr>output_con_columns := [''phenotype2'']\<rparr>)) =
           Inr ()"
    by (simp add: validate_geno_data_path_def directory_world_def example_world_def
          example_args_def)
  have l: "validate_label_file directory_world
             (label_file_path (example_args\<lparr>output_con_columns := [''phenotype2'']\<rparr>))
             (input_cat_columns (example_args\<lparr>output_con_columns := [''phenotype2'']\<rparr>))
             (input_con_columns (example_args\<lparr>output_con_columns := [''phenotype2'']\<rparr>))
             (output_cat_columns (example_args\<lparr>output_con_columns := [''phenotype2'']\<rparr>))
             (output_con_columns (example_args\<lparr>output_con_columns := [''phenotype2'']\<rparr>)) =
           Inl (IsADirectoryError ''labels.csv'')"
    by (simp add: validate_label_file_def directory_world_def example_world_def
          example_args_def Path_def splitroot_def path_str_def)
  have r: "run directory_world [example_args\<lparr>output_con_columns := [''phenotype2'']\<rparr>] 0 =
     ([ValidateGenoDataPath, ValidateLabelFile], Inl (IsADirectoryError ''labels.csv''))"
    using g l by (simp add: run_def and_then_def call_def)
  show ?thesis
    by (simp add: r) (simp add: example_args_def)
qed

text \<open>C5 (amended): for every arguments record on which one of the four validators
  (genotype path, label file, targets, external tool) fails, \<open>run\<close> raises the error of the
  first validator that fails, having entered nothing but validators: no output-folder
  resolution, no configuration builder, no construction or submission of the root task. In
  particular, with two (or more) output target columns \<open>run\<close> raises before any folder
  resolution or task submission; what it raises is a \<open>ValueError\<close> (the specification's
  \<open>ConfigurationError\<close>) whenever \<open>Path.exists\<close> answers for the label file path and
  \<open>pd.read_csv\<close> reads a header from it if it exists, and otherwise the exception raised
  inside the label file validator.\<close>

theorem run_fails_fast:
  fixes w :: world and h :: "'f heap" and cl_args :: ref
  assumes vg: "vg = validate_geno_data_path w (genotype_data_path (h ! cl_args))"
    and vl: "vl = validate_label_file w (label_file_path (h ! cl_args))
                    (input_cat_columns (h ! cl_args)) (input_con_columns (h ! cl_args))
                    (output_cat_columns (h ! cl_args)) (output_con_columns (h ! cl_args))"
    and vt: "vt = validate_targets (output_con_columns (h ! cl_args))
                    (output_cat_columns (h ! cl_args))"
    and vp: "vp = validate_plink2_exists_in_path w"
  shows "(vg = Inl e \<longrightarrow> run w h cl_args = ([ValidateGenoDataPath], Inl e))
       \<and> (vg = Inr () \<and> vl = Inl e \<longrightarrow>
            run w h cl_args = ([ValidateGenoDataPath, ValidateLabelFile], Inl e))
       \<and> (vg = Inr () \<and> vl = Inr () \<and> vt = Inl e \<longrightarrow>
            run w h cl_args =
              ([ValidateGenoDataPath, ValidateLabelFile, ValidateTargets], Inl e))
       \<and> (vg = Inr () \<and> vl = Inr () \<and> vt = Inr () \<and> vp = Inl e \<longrightarrow>
            run w h cl_args =
              ([ValidateGenoDataPath, ValidateLabelFile, ValidateTargets,
                ValidatePlink2ExistsInPath], Inl e))
       \<and> (vg \<noteq> Inr () \<or> vl \<noteq> Inr () \<or> vt \<noteq> Inr () \<or> vp \<noteq> Inr () \<longrightarrow>
            (\<exists>e'. snd (run w h cl_args) = Inl e' \<and>
                  (vg = Inl e' \<or> vl = Inl e' \<or> vt = Inl e' \<or> vp = Inl e') \<and>
                  ((\<exists>m. e' = ValueError m) \<or> vl = Inl e')) \<and>
            set (fst (run w h cl_args)) \<subseteq>
              {ValidateGenoDataPath, ValidateLabelFile, ValidateTargets,
               ValidatePlink2ExistsInPath})
       \<and> (2 \<le> length (output_con_columns (h ! cl_args)) +
                length (output_cat_columns (h ! cl_args)) \<longrightarrow>
            (\<exists>e'. snd (run w h cl_args) = Inl e' \<and>
                  ((\<exists>m. e' = ValueError m) \<or> vl = Inl e')) \<and>
            set (fst (run w h cl_args)) \<subseteq>
              {ValidateGenoDataPath, ValidateLabelFile, ValidateTargets,
               ValidatePlink2ExistsInPath})
       \<and> (2 \<le> length (output_con_columns (h ! cl_args)) +
                length (output_cat_columns (h ! cl_args)) \<and>
          path_exists w (path_str (Path (label_file_path (h ! cl_args)))) = Inr exists \<and>
          (exists \<longrightarrow> read_csv_columns w (label_file_path (h ! cl_args)) = Inr columns) \<longrightarrow>
            (\<exists>m. snd (run w h cl_args) = Inl (ValueError m)) \<and>
            set (fst (run w h cl_args)) \<subseteq>
              {ValidateGenoDataPath, ValidateLabelFile, ValidateTargets,
               ValidatePlink2ExistsInPath})"
proof -
  have fails: "(\<exists>e'. snd (run w h cl_args) = Inl e' \<and>
                  (vg = Inl e' \<or> vl = Inl e' \<or> vt = Inl e' \<or> vp = Inl e') \<and>
                  ((\<exists>m. e' = ValueError m) \<or> vl = Inl e')) \<and>
            set (fst (run w h cl_args)) \<subseteq>
              {ValidateGenoDataPath, ValidateLabelFile, ValidateTargets,
               ValidatePlink2ExistsInPath}"
    if "vg \<noteq> Inr () \<or> vl \<noteq> Inr () \<or> vt \<noteq> Inr () \<or> vp \<noteq> Inr ()"
  proof (cases vg)
    case (Inl e1)
    with vg validate_geno_data_path_error[of w _ e1] run_geno_fails[of w h cl_args e1]
    show ?thesis by auto
  next
    case g: (Inr u)
    show ?thesis
    proof (cases vl)
      case (Inl e2)
      with g vg vl run_label_fails[of w h cl_args e2]
      show ?thesis by auto
    next
      case l: (Inr u2)
      show ?thesis
      proof (cases vt)
        case (Inl e3)
        with g l vg vl vt validate_targets_error[of _ _ e3]
          run_targets_fails[of w h cl_args e3]
        show ?thesis by auto
      next
        case t: (Inr u3)
        show ?thesis
        proof (cases vp)
          case (Inl e4)
          with g l t vg vl vt vp validate_plink2_error[of w e4]
            run_plink2_fails[of w h cl_args e4]
          show ?thesis by auto
        next
          case (Inr u4)
          with g l t that show ?thesis by simp
        qed
      qed
    qed
  qed
  have many: "vt \<noteq> Inr ()"
    if "2 \<le> length (output_con_columns (h ! cl_args)) +
              length (output_cat_columns (h ! cl_args))"
    using validate_targets_many[OF that] vt by simp
  have c1: "vg = Inl e \<longrightarrow> run w h cl_args = ([ValidateGenoDataPath], Inl e)"
    using run_geno_fails[of w h cl_args e] vg by simp
  have c2: "vg = Inr () \<and> vl = Inl e \<longrightarrow>
            run w h cl_args = ([ValidateGenoDataPath, ValidateLabelFile], Inl e)"
    using run_label_fails[of w h cl_args e] vg vl by simp
  have c3: "vg = Inr () \<and> vl = Inr () \<and> vt = Inl e \<longrightarrow>
            run w h cl_args =
              ([ValidateGenoDataPath, ValidateLabelFile, ValidateTargets], Inl e)"
    using run_targets_fails[of w h cl_args e] vg vl vt by simp
  have c4: "vg = Inr () \<and> vl = Inr () \<and> vt = Inr () \<and> vp = Inl e \<longrightarrow>
            run w h cl_args =
              ([ValidateGenoDataPath, ValidateLabelFile, ValidateTargets,
                ValidatePlink2ExistsInPath], Inl e)"
    using run_plink2_fails[of w h cl_args e] vg vl vt vp by simp
  have c5: "vg \<noteq> Inr () \<or> vl \<noteq> Inr () \<or> vt \<noteq> Inr () \<or> vp \<noteq> Inr () \<longrightarrow>
            (\<exists>e'. snd (run w h cl_args) = Inl e' \<and>
                  (vg = Inl e' \<or> vl = Inl e' \<or> vt = Inl e' \<or> vp = Inl e') \<and>
                  ((\<exists>m. e' = ValueError m) \<or> vl = Inl e')) \<and>
            set (fst (run w h cl_args)) \<subseteq>
              {ValidateGenoDataPath, ValidateLabelFile, ValidateTargets,
               ValidatePlink2ExistsInPath}"
    using fails by (rule impI)
  have c6: "2 \<le> length (output_con_columns (h ! cl_args)) +
                length (output_cat_columns (h ! cl_args)) \<longrightarrow>
            (\<exists>e'. snd (run w h cl_args) = Inl e' \<and>
                  ((\<exists>m. e' = ValueError m) \<or> vl = Inl e')) \<and>
            set (fst (run w h cl_args)) \<subseteq>
              {ValidateGenoDataPath, ValidateLabelFile, ValidateTargets,
               ValidatePlink2ExistsInPath}"
  proof
    assume "2 \<le> length (output_con_columns (h ! cl_args)) +
                length (output_cat_columns (h ! cl_args))"
    from many[OF this]
    have "vg \<noteq> Inr () \<or> vl \<noteq> Inr () \<or> vt \<noteq> Inr () \<or> vp \<noteq> Inr ()" by simp
    from fails[OF this]
    show "(\<exists>e'. snd (run w h cl_args) = Inl e' \<and>
                  ((\<exists>m. e' = ValueError m) \<or> vl = Inl e')) \<and>
            set (fst (run w h cl_args)) \<subseteq>
              {ValidateGenoDataPath, ValidateLabelFile, ValidateTargets,
               ValidatePlink2ExistsInPath}"
      by blast
  qed
  have c7: "2 \<le> length (output_con_columns (h ! cl_args)) +
                length (output_cat_columns (h ! cl_args)) \<and>
          path_exists w (path_str (Path (label_file_path (h ! cl_args)))) = Inr exists \<and>
          (exists \<longrightarrow> read_csv_columns w (label_file_path (h ! cl_args)) = Inr columns) \<longrightarrow>
            (\<exists>m. snd (run w h cl_args) = Inl (ValueError m)) \<and>
            set (fst (run w h cl_args)) \<subseteq>
              {ValidateGenoDataPath, ValidateLabelFile, ValidateTargets,
               ValidatePlink2ExistsInPath}"
  proof
    assume a: "2 \<le> length (output_con_columns (h ! cl_args)) +
                length (output_cat_columns (h ! cl_args)) \<and>
          path_exists w (path_str (Path (label_file_path (h ! cl_args)))) = Inr exists \<and>
          (exists \<longrightarrow> read_csv_columns w (label_file_path (h ! cl_args)) = Inr columns)"
    then have "vt \<noteq> Inr ()" using many by simp
    then have "vg \<noteq> Inr () \<or> vl \<noteq> Inr () \<or> vt \<noteq> Inr () \<or> vp \<noteq> Inr ()" by simp
    from fails[OF this] obtain e' where
      e': "snd (run w h cl_args) = Inl e'" "(\<exists>m. e' = ValueError m) \<or> vl = Inl e'"
      and t: "set (fst (run w h cl_args)) \<subseteq>
              {ValidateGenoDataPath, ValidateLabelFile, ValidateTargets,
               ValidatePlink2ExistsInPath}"
      by blast
    have "\<exists>m. e' = ValueError m"
    proof (cases "\<exists>m. e' = ValueError m")
      case True
      then show ?thesis .
    next
      case False
      with e'(2) have "vl = Inl e'" by simp
      with vl a validate_label_file_error_answered[of w "label_file_path (h ! cl_args)"
          exists columns _ _ _ _ e']
      show ?thesis by auto
    qed
    with e'(1) t show "(\<exists>m. snd (run w h cl_args) = Inl (ValueError m)) \<and>
            set (fst (run w h cl_args)) \<subseteq>
              {ValidateGenoDataPath, ValidateLabelFile, ValidateTargets,
               ValidatePlink2ExistsInPath}"
      by auto
  qed
  show ?thesis
    by (intro conjI) (rule c1 c2 c3 c4 c5 c6 c7)+
qed

theorem run_fails_fast_witness:
  "run example_world [example_args\<lparr>output_con_columns := [''phenotype2'']\<rparr>] 0 =
     ([ValidateGenoDataPath, ValidateLabelFile],
      Inl (ValueError (MissingColumns ''labels.csv'' {''phenotype2''})))
   \<and> run example_world [example_args\<lparr>output_con_columns := [''phenotype'']\<rparr>] 0 =
     ([ValidateGenoDataPath, ValidateLabelFile, ValidateTargets],
      Inl (ValueError (TooManyTargets [''phenotype''] [''phenotype''])))"
  using run_fails_fast
          [OF refl refl refl refl,
           where w = example_world
             and h = "[example_args\<lparr>output_con_columns := [''phenotype2'']\<rparr>]"
             and cl_args = 0
             and e = "ValueError (MissingColumns ''labels.csv'' {''phenotype2''})",
           THEN conjunct2, THEN conjunct1]
    run_fails_fast
          [OF refl refl refl refl,
           where w = example_world
             and h = "[example_args\<lparr>output_con_columns := [''phenotype'']\<rparr>]"
             and cl_args = 0
             and e = "ValueError (TooManyTargets [''phenotype''] [''phenotype''])",
           THEN conjunct2, THEN conjunct2, THEN conjunct1]
  by (simp add: validate_geno_data_path_def validate_label_file_def validate_targets_def
        validate_plink2_exists_in_path_def example_world_def example_args_def Path_def
        splitroot_def path_str_def)

end
